theory Spec2Isabelle
  imports Complex_Main
begin

section \<open>Errors raised by the Python code\<close>

text \<open>
  Every exception that the modelled functions can raise is a value of \<open>error\<close>;
  a function that can raise returns \<open>error + 'a\<close> with \<open>Inl\<close> for the exception.
\<close>

datatype error = ValueError | KeyError | IndexError | TypeError | AttributeError | ZeroDivisionError

section \<open>Rectangular regions (\<open>models/segments.py\<close>, class \<open>Rect\<close>)\<close>

text \<open>
  A \<open>Rect\<close> holds the list \<open>coords = [top, left, bottom, right]\<close>. The coordinates are
  Python numbers (integers from the labelling routine, floats after arithmetic); they are
  modelled as reals, so floating-point rounding is not part of the model. Iterating over a
  \<open>Rect\<close> yields the four coordinates in the order top, left, bottom, right.
\<close>

record rect =
  top :: real
  left :: real
  bottom :: real
  right :: real

definition Rect :: "real \<Rightarrow> real \<Rightarrow> real \<Rightarrow> real \<Rightarrow> rect" where
  "Rect t l b r = \<lparr>top = t, left = l, bottom = b, right = r\<rparr>"

definition width :: "rect \<Rightarrow> real" where
  "width r = right r - left r"

definition height :: "rect \<Rightarrow> real" where
  "height r = bottom r - top r"

definition area :: "rect \<Rightarrow> real" where
  "area r = width r * height r"

text \<open>The invariant the specification puts on a region; the class itself does not enforce it.\<close>

definition well_formed :: "rect \<Rightarrow> bool" where
  "well_formed r \<longleftrightarrow> top r \<le> bottom r \<and> left r \<le> right r"

text \<open>\<open>np.hypot\<close>, over the reals.\<close>

definition hypot :: "real \<Rightarrow> real \<Rightarrow> real" where
  "hypot a b = sqrt (a\<^sup>2 + b\<^sup>2)"

text \<open>\<open>Rect.overlaps\<close>, the branch taken when the argument is a \<open>Rect\<close>.\<close>

definition overlaps :: "rect \<Rightarrow> rect \<Rightarrow> bool" where
  "overlaps self other \<longleftrightarrow>
     min (right self) (right other) > max (left self) (left other) \<and>
     min (bottom self) (bottom other) > max (top self) (top other)"

text \<open>
  The local helper \<open>dist\<close> of \<open>Rect._edge_separation_rect\<close>; points are pairs \<open>(x, y)\<close>.
\<close>

definition dist_pt :: "real \<times> real \<Rightarrow> real \<times> real \<Rightarrow> real" where
  "dist_pt p1 p2 = (case p1 of (x1, y1) \<Rightarrow> case p2 of (x2, y2) \<Rightarrow> hypot (x2 - x1) (y2 - y1))"

text \<open>
  \<open>Rect.find_relative_orientation\<close>: the four flags \<open>(top, left, bottom, right)\<close>.
\<close>

definition find_relative_orientation :: "rect \<Rightarrow> rect \<Rightarrow> bool \<times> bool \<times> bool \<times> bool" where
  "find_relative_orientation self other_rect =
     (let t1 = top self; l1 = left self; b1 = bottom self; r1 = right self;
          t2 = top other_rect; l2 = left other_rect; b2 = bottom other_rect; r2 = right other_rect;
          is_left = r2 < l1;
          is_right = r1 < l2;
          is_bottom = b1 < t2;
          is_top = b2 < t1
      in (is_top, is_left, is_bottom, is_right))"

text \<open>
  \<open>Rect._edge_separation_rect\<close>, with the source's order of cases and the source's corner
  points in each diagonal case.
\<close>

definition edge_separation_rect :: "rect \<Rightarrow> rect \<Rightarrow> real" where
  "edge_separation_rect self other_rect =
     (let t1 = top self; l1 = left self; b1 = bottom self; r1 = right self;
          t2 = top other_rect; l2 = left other_rect; b2 = bottom other_rect; r2 = right other_rect;
          is_left = r2 < l1;
          is_right = r1 < l2;
          is_bottom = b1 < t2;
          is_top = b2 < t1
      in if is_top \<and> is_left then dist_pt (l1, t1) (r2, b2)
         else if is_bottom \<and> is_left then dist_pt (l1, t1) (r2, t2)
         else if is_bottom \<and> is_right then dist_pt (r1, t1) (l2, t2)
         else if is_right \<and> is_top then dist_pt (r1, b1) (l2, b2)
         else if is_left then l1 - r2
         else if is_right then l2 - r1
         else if is_bottom then t2 - b1
         else if is_top then t1 - b2
         else 0)"

text \<open>
  The argument of \<open>Rect.edge_separation\<close>: a \<open>Point\<close> (unpacked as \<open>y, x\<close>), a sequence of
  length two (unpacked as \<open>x, y\<close>), or a rectangle.
\<close>

datatype sep_arg = PointArg real real | PairArg real real | RectArg rect

fun edge_separation :: "rect \<Rightarrow> sep_arg \<Rightarrow> real" where
  "edge_separation self (PointArg y x) = edge_separation_rect self (Rect y x y x)"
| "edge_separation self (PairArg x y) = edge_separation_rect self (Rect y x y x)"
| "edge_separation self (RectArg other) = edge_separation_rect self other"

text \<open>
  \<open>Rect.compute_iou\<close>. The source unpacks both rectangles as \<open>xa, ya, wa, ha = self\<close>, that
  is, it reads the coordinates (top, left, bottom, right) as (x, y, width, height). The
  final division raises when the union is zero.
\<close>

definition compute_iou :: "rect \<Rightarrow> rect \<Rightarrow> error + real" where
  "compute_iou self other_rect =
     (let xa = top self; ya = left self; wa = bottom self; ha = right self;
          xb = top other_rect; yb = left other_rect; wb = bottom other_rect; hb = right other_rect;
          x1_inter = max xa xb;
          y1_inter = max ya yb;
          x2_inter = min (xa + wa) (xb + wb);
          y2_inter = min (ya + ha) (yb + hb)
      in if x2_inter < x1_inter \<or> y2_inter < y1_inter then Inr 0
         else
           let area_a = wa * ha;
               area_b = wb * hb;
               w_inter = x2_inter - x1_inter;
               h_inter = y2_inter - y1_inter;
               area_intersection = w_inter * h_inter
           in if area_a + area_b - area_intersection = 0 then Inl ZeroDivisionError
              else Inr (area_intersection / (area_a + area_b - area_intersection)))"

section \<open>Diagrams, conditions, arrows and steps (\<open>models/reaction.py\<close>)\<close>

text \<open>
  \<open>Rect.center\<close> returns the pair \<open>(xcenter, ycenter)\<close>; \<open>xcenter\<close> is \<open>None\<close> when
  \<open>self.right\<close> is falsy, that is, when \<open>right\<close> is 0.
\<close>

definition center :: "rect \<Rightarrow> real option \<times> real" where
  "center r = (if right r \<noteq> 0 then Some ((left r + right r) / 2) else None, (bottom r + top r) / 2)"

text \<open>
  Diagrams, conditions regions and arrows each own a panel. Python's \<open>==\<close> on two
  diagrams (and on two conditions regions) compares the panels only. A conditions region
  keeps the species of its dictionary: each entry of \<open>coreactants\<close> and \<open>catalysts\<close> is
  represented by its \<open>'Species'\<close> field. An arrow keeps its reference point \<open>(x, y)\<close>
  and its \<open>children\<close>, which the \<open>conditions\<close> property returns; its pixels and
  contour are used only by the image library and are not modelled.
\<close>

record panelled =
  panel :: rect

record diagram = panelled +
  smiles :: "string option"

record conditions = panelled +
  coreactants :: "string list"
  catalysts :: "string list"
  other_species :: "string list"

record arrow = panelled +
  reference_pt :: "real \<times> real"
  children :: "conditions list"

text \<open>
  A \<open>ReactionStep\<close>. Its constructor also appends the step to the \<open>reaction_steps\<close>
  list of every diagram in it; these back-references are not modelled.
\<close>

record reaction_step =
  step_arrow :: arrow
  reactants :: "diagram list"
  products :: "diagram list"
  single_line :: bool

definition step_conditions :: "reaction_step \<Rightarrow> conditions list" where
  "step_conditions step = children (step_arrow step)"

section \<open>The scanning engine (\<open>models/output.py\<close>, class \<open>RoleProbe\<close>)\<close>

text \<open>Python's \<open>min\<close> on a list of numbers: \<open>ValueError\<close> on the empty list.\<close>

fun py_min :: "real list \<Rightarrow> error + real" where
  "py_min [] = Inl ValueError"
| "py_min (x # xs) = Inr (fold min xs x)"

text \<open>\<open>np.mean\<close> of a non-empty list.\<close>

definition np_mean :: "real list \<Rightarrow> real" where
  "np_mean xs = sum_list xs / real (length xs)"

record figure =
  img_shape :: "nat \<times> nat"

record role_probe =
  fig :: figure
  arrows :: "arrow list"
  diagrams :: "diagram list"
  stepsize :: real
  segment_length :: real
  reaction_steps :: "reaction_step list"

text \<open>
  \<open>RoleProbe.__init__\<close>. The step size is evaluated first and raises on an empty list of
  diagrams; the segment length is \<open>np.mean([...]) // 2\<close>, a floor division.
\<close>

definition RoleProbe_init :: "figure \<Rightarrow> arrow list \<Rightarrow> diagram list \<Rightarrow> error + role_probe" where
  "RoleProbe_init f arrs diags =
     (case py_min (concat (map (\<lambda>diag. [width (panel diag), height (panel diag)]) diags)) of
        Inl e \<Rightarrow> Inl e
      | Inr step \<Rightarrow>
          Inr \<lparr>fig = f, arrows = arrs, diagrams = diags, stepsize = step,
               segment_length =
                 of_int \<lfloor>np_mean (map (\<lambda>d. (width (panel d) + height (panel d)) / 2) diags) / 2\<rfloor>,
               reaction_steps = []\<rparr>)"

text \<open>
  The specification's words for the two set-up parameters: the minimum of every diagram's
  width and height, and the mean of the diagrams' half-perimeters.
\<close>

definition min_width_height :: "diagram list \<Rightarrow> real" where
  "min_width_height diags = Min (\<Union>d \<in> set diags. {width (panel d), height (panel d)})"

definition mean_half_perimeter :: "diagram list \<Rightarrow> real" where
  "mean_half_perimeter diags =
     (\<Sum>d \<leftarrow> diags. (width (panel d) + height (panel d)) / 2) / real (length diags)"

text \<open>
  \<open>RoleProbe.assign_diags\<close>. The inner function takes the minimum of the edge
  separations between the bounding boxes of a group and the reference point, which is a
  pair \<open>(x, y)\<close>. \<open>min(groups, key=...)\<close> evaluates the key of both groups and keeps the
  first group unless the second is strictly smaller. \<open>groups.remove(prod_group)\<close> removes
  the first of the two groups that is \<open>==\<close> to the product group (lists of diagrams are
  equal when their panels are), and the remaining group is the reactants.
\<close>

definition compute_ref_group_dist :: "diagram list \<Rightarrow> real \<times> real \<Rightarrow> error + real" where
  "compute_ref_group_dist grp ref_point =
     py_min (map (\<lambda>bbox. edge_separation (panel bbox) (PairArg (fst ref_point) (snd ref_point))) grp)"

definition group_eq :: "diagram list \<Rightarrow> diagram list \<Rightarrow> bool" where
  "group_eq g h \<longleftrightarrow> map panel g = map panel h"

definition assign_diags :: "diagram list \<Rightarrow> diagram list \<Rightarrow> arrow \<Rightarrow> error + (diagram list \<times> diagram list)" where
  "assign_diags group1 group2 arr =
     (let ref_point = reference_pt arr in
      case compute_ref_group_dist group1 ref_point of
        Inl e \<Rightarrow> Inl e
      | Inr d1 \<Rightarrow>
          (case compute_ref_group_dist group2 ref_point of
             Inl e \<Rightarrow> Inl e
           | Inr d2 \<Rightarrow>
               let prod_group = (if d2 < d1 then group2 else group1);
                   react_group = (if group_eq group1 prod_group then group2 else group1)
               in Inr (react_group, prod_group)))"

text \<open>
  The value that \<open>compute_ref_group_dist\<close> returns for a non-empty group, written with
  \<open>Min\<close>: the minimum over the group of the edge separation as the code computes it.
\<close>

definition min_edge_separation :: "diagram list \<Rightarrow> real \<times> real \<Rightarrow> real" where
  "min_edge_separation grp pt =
     Min ((\<lambda>d. edge_separation (panel d) (PairArg (fst pt) (snd pt))) ` set grp)"

text \<open>
  The specification's words for the edge separation: the distance between the nearest
  edges or corners of two regions, 0 if they overlap. On each axis the gap is the amount
  by which one region lies wholly beyond the other (0 when neither does); the distance is
  the length of the vector of the two gaps, an edge gap when only one axis has a gap and
  the distance between the two nearest corners when both have. The distance of a group
  from a point \<open>(x, y)\<close> is the minimum over its diagrams.
\<close>

definition nearest_edge_distance :: "rect \<Rightarrow> rect \<Rightarrow> real" where
  "nearest_edge_distance a b =
     hypot (max 0 (max (left a - right b) (left b - right a)))
           (max 0 (max (top a - bottom b) (top b - bottom a)))"

definition nearest_group_distance :: "diagram list \<Rightarrow> real \<times> real \<Rightarrow> real" where
  "nearest_group_distance grp pt =
     Min ((\<lambda>d. nearest_edge_distance (panel d) (Rect (snd pt) (fst pt) (snd pt) (fst pt))) ` set grp)"

text \<open>
  Two groups beside an arrow whose reference point is \<open>(300, 104)\<close>: a wide diagram to
  the left of the point, and a diagram above and to the right of it whose lower left
  corner is next to the point.
\<close>

definition left_diagram :: diagram where
  "left_diagram = \<lparr>panel = Rect 90 100 120 240, smiles = None\<rparr>"

definition upper_right_diagram :: diagram where
  "upper_right_diagram = \<lparr>panel = Rect 0 303 100 350, smiles = None\<rparr>"

definition arrow_between :: arrow where
  "arrow_between = \<lparr>panel = Rect 100 250 108 302, reference_pt = (300, 104), children = []\<rparr>"

text \<open>
  \<open>RoleProbe.probe_around_arrow\<close>. The two line scans and the search on another line go
  through the image library, the clustering library and the geometry module, none of
  which is part of the source at hand; their results are parameters: \<open>line_scan switch\<close>
  is the result of \<open>_perform_line_scan\<close> from the arrow's centre with the given switch,
  \<open>search_elsewhere where switch\<close> that of \<open>_search_elsewhere\<close>. An empty list is falsy.
  The arrow's centre is read first; its x is \<open>None\<close> when the panel's \<open>right\<close> is 0, and
  the subtraction then raises.
\<close>

datatype search_direction = UpRight | DownLeft

definition probe_around_arrow ::
  "(int \<Rightarrow> error + diagram list) \<Rightarrow> (search_direction \<Rightarrow> int \<Rightarrow> error + diagram list) \<Rightarrow>
   role_probe \<Rightarrow> arrow \<Rightarrow> error + role_probe" where
  "probe_around_arrow line_scan search_elsewhere self arr =
     (case fst (center (panel arr)) of
        None \<Rightarrow> Inl TypeError
      | Some cx \<Rightarrow>
     (case line_scan (- 1) of Inl e \<Rightarrow> Inl e | Inr diags_one \<Rightarrow>
     (case line_scan 1 of Inl e \<Rightarrow> Inl e | Inr diags_two \<Rightarrow>
     (let w = real (snd (img_shape (fig self)));
          closer_extreme = (if (cx - 0)\<^sup>2 \<le> (cx - w)\<^sup>2 then 0 else w);
          search_dir = (if closer_extreme = 0 then UpRight else DownLeft)
      in
      case (if diags_one \<noteq> [] \<and> diags_two \<noteq> [] then Inr diags_one
            else if diags_one \<noteq> [] then Inr diags_one else search_elsewhere search_dir (- 1)) of
        Inl e \<Rightarrow> Inl e
      | Inr diags_one' \<Rightarrow>
     (case (if diags_one \<noteq> [] \<and> diags_two \<noteq> [] then Inr diags_two
            else if diags_two \<noteq> [] then Inr diags_two else search_elsewhere search_dir 1) of
        Inl e \<Rightarrow> Inl e
      | Inr diags_two' \<Rightarrow>
     (case assign_diags diags_one' diags_two' arr of
        Inl e \<Rightarrow> Inl e
      | Inr (diags_react, diags_prod) \<Rightarrow>
          Inr (self\<lparr>reaction_steps := reaction_steps self @
                 [\<lparr>step_arrow = arr, reactants = diags_react, products = diags_prod,
                   single_line = (diags_one \<noteq> [] \<and> diags_two \<noteq> [])\<rparr>]\<rparr>)))))))"

text \<open>
  \<open>ReactionScheme.separate_ccs\<close>, the older separation of panels by proximity to two
  points: each panel goes to the cluster of the nearer point (the first on a tie), and a
  cluster that stays empty is returned as it is.
\<close>

fun separate_ccs :: "rect list \<Rightarrow> real \<times> real \<Rightarrow> real \<times> real \<Rightarrow> rect list \<times> rect list" where
  "separate_ccs [] point1 point2 = ([], [])"
| "separate_ccs (cc # ccs) point1 point2 =
     (let (c0, c1) = separate_ccs ccs point1 point2 in
      if edge_separation cc (PairArg (fst point2) (snd point2)) <
         edge_separation cc (PairArg (fst point1) (snd point1))
      then (c0, cc # c1) else (cc # c0, c1))"

text \<open>
  A probing segment is a \<open>Line\<close>; the scan reads only its \<open>endpoints\<close>, two points
  \<open>(x, y)\<close>. \<open>RoleProbe._check_overlap\<close> measures the overlap of a segment and a panel as
  the diagonal of the intersection of the panel and the segment's bounding box.
\<close>

type_synonym segment = "(real \<times> real) \<times> (real \<times> real)"

definition check_overlap :: "segment \<Rightarrow> rect \<Rightarrow> real" where
  "check_overlap seg pnl =
     (let t1 = top pnl; l1 = left pnl; b1 = bottom pnl; r1 = right pnl;
          p1 = fst seg; p2 = snd seg;
          t2 = min (snd p1) (snd p2); b2 = max (snd p1) (snd p2);
          l2 = min (fst p1) (fst p2); r2 = max (fst p1) (fst p2);
          t = max t1 t2;
          b = min b1 b2;
          l = max l1 l2;
          r = min r1 r2;
          h = b - t;
          w = r - l
      in if h < 0 \<or> w < 0 then 0 else sqrt (h\<^sup>2 + w\<^sup>2))"

text \<open>\<open>list.index(True)\<close>, with \<open>None\<close> for the \<open>ValueError\<close> that the scan catches.\<close>

fun index_True :: "bool list \<Rightarrow> nat option" where
  "index_True [] = None"
| "index_True (b # bs) = (if b then Some 0 else map_option Suc (index_True bs))"

text \<open>
  The middle of \<open>RoleProbe._perform_line_scan\<close>: given the probing segments, find the
  first one that overlaps an arrow other than the scanned one, and cut the list there when
  the index is greater than 2. \<open>other_arrows.remove(arrow)\<close> raises \<open>ValueError\<close> when
  the arrow is not in the list, which the same handler turns into \<open>None\<close>. A number is
  truthy when it is not 0. Arrows are compared with equality of the model.
\<close>

definition overlaps_other_arrow :: "arrow list \<Rightarrow> segment \<Rightarrow> bool" where
  "overlaps_other_arrow other_arrows l \<longleftrightarrow> list_ex (\<lambda>a. check_overlap l (panel a) \<noteq> 0) other_arrows"

definition arrow_overlap :: "arrow list \<Rightarrow> arrow \<Rightarrow> segment list \<Rightarrow> nat option" where
  "arrow_overlap arrs arr lines =
     (if arr \<in> set arrs
      then index_True (map (overlaps_other_arrow (remove1 arr arrs)) lines)
      else None)"

definition retained_lines :: "arrow list \<Rightarrow> arrow \<Rightarrow> segment list \<Rightarrow> segment list" where
  "retained_lines arrs arr lines =
     (case arrow_overlap arrs arr lines of
        Some i \<Rightarrow> if i > 2 then take i lines else lines
      | None \<Rightarrow> lines)"

section \<open>The scheme graph (\<open>models/output.py\<close>, classes \<open>Graph\<close> and \<open>ReactionScheme\<close>)\<close>

text \<open>
  A node is registered under \<open>frozenset(node)\<close>, where \<open>node\<close> is a list of diagrams (a
  reactant or product group) or the list of conditions regions of the step's arrow.
  Membership in a frozenset goes through \<open>__eq__\<close> and \<open>__hash__\<close>: diagrams and conditions
  regions are equal when their panels are, and a diagram never equals a conditions
  region. So a key is a set of members, each a panel marked with its class.
\<close>

datatype member = DiagramMember rect | ConditionsMember rect

datatype species_group = Species "diagram list" | Conds "conditions list"

fun frozenset :: "species_group \<Rightarrow> member set" where
  "frozenset (Species ds) = set (map (\<lambda>d. DiagramMember (panel d)) ds)"
| "frozenset (Conds cs) = set (map (\<lambda>c. ConditionsMember (panel c)) cs)"

text \<open>
  \<open>Graph.__init__\<close>: the dictionary \<open>nodes\<close> from keys to integer ids, the dictionary
  \<open>adjacency\<close> from ids to lists of successor ids, and the next free id.
\<close>

record graph =
  nodes :: "member set \<rightharpoonup> nat"
  adjacency :: "nat \<rightharpoonup> nat list"
  node_idx :: nat

definition Graph_init :: graph where
  "Graph_init = \<lparr>nodes = Map.empty, adjacency = Map.empty, node_idx = 0\<rparr>"

text \<open>\<open>Graph.add_node\<close>.\<close>

definition add_node :: "graph \<Rightarrow> species_group \<Rightarrow> graph" where
  "add_node self node =
     (if frozenset node \<notin> dom (nodes self)
      then self\<lparr>nodes := (nodes self)(frozenset node \<mapsto> node_idx self),
                node_idx := node_idx self + 1\<rparr>
      else self)"

text \<open>
  \<open>ReactionScheme._generate_edge\<close>. Both look-ups raise \<open>KeyError\<close> on a key that was
  never registered. \<open>self.adjacency.get(key)\<close> is falsy when the id has no entry or an
  empty list.
\<close>

definition generate_edge :: "graph \<Rightarrow> species_group \<Rightarrow> species_group \<Rightarrow> error + graph" where
  "generate_edge self key successor =
     (case nodes self (frozenset key) of
        None \<Rightarrow> Inl KeyError
      | Some k \<Rightarrow>
          (case nodes self (frozenset successor) of
             None \<Rightarrow> Inl KeyError
           | Some s \<Rightarrow>
               (case adjacency self k of
                  Some (x # xs) \<Rightarrow> Inr (self\<lparr>adjacency := (adjacency self)(k \<mapsto> (x # xs) @ [s])\<rparr>)
                | _ \<Rightarrow> Inr (self\<lparr>adjacency := (adjacency self)(k \<mapsto> [s])\<rparr>))))"

text \<open>
  \<open>ReactionScheme.create_graph\<close>: a first loop over the steps registers the reactants,
  the products (iterating a step yields these two) and the conditions; a second loop adds
  the two edges of each step.
\<close>

fun register_nodes :: "graph \<Rightarrow> reaction_step list \<Rightarrow> graph" where
  "register_nodes self [] = self"
| "register_nodes self (step # steps) =
     register_nodes
       (add_node (add_node (add_node self (Species (reactants step))) (Species (products step)))
          (Conds (step_conditions step)))
       steps"

fun generate_edges :: "graph \<Rightarrow> reaction_step list \<Rightarrow> error + graph" where
  "generate_edges self [] = Inr self"
| "generate_edges self (step # steps) =
     (case generate_edge self (Species (reactants step)) (Conds (step_conditions step)) of
        Inl e \<Rightarrow> Inl e
      | Inr g \<Rightarrow>
          (case generate_edge g (Conds (step_conditions step)) (Species (products step)) of
             Inl e \<Rightarrow> Inl e
           | Inr g' \<Rightarrow> generate_edges g' steps))"

definition create_graph :: "graph \<Rightarrow> reaction_step list \<Rightarrow> error + graph" where
  "create_graph self steps = generate_edges (register_nodes self steps) steps"

text \<open>
  The specification's words for the result: the keys of all groups and conditions of the
  steps, and the edges reactants \<open>\<rightarrow>\<close> conditions, conditions \<open>\<rightarrow>\<close> products of every step
  in step order; the adjacency of an id lists the targets of its edges in that order, and
  an id without an outgoing edge has no entry.
\<close>

definition step_keys :: "reaction_step list \<Rightarrow> member set set" where
  "step_keys steps =
     (\<Union>s \<in> set steps. {frozenset (Species (reactants s)), frozenset (Species (products s)),
                          frozenset (Conds (step_conditions s))})"

definition node_id :: "graph \<Rightarrow> species_group \<Rightarrow> nat" where
  "node_id g x = the (nodes g (frozenset x))"

definition step_edges :: "graph \<Rightarrow> reaction_step list \<Rightarrow> (nat \<times> nat) list" where
  "step_edges g steps =
     concat (map (\<lambda>s. [(node_id g (Species (reactants s)), node_id g (Conds (step_conditions s))),
                        (node_id g (Conds (step_conditions s)), node_id g (Species (products s)))]) steps)"

definition successors_in :: "(nat \<times> nat) list \<Rightarrow> nat \<Rightarrow> nat list option" where
  "successors_in es k =
     (let succs = map snd (filter (\<lambda>e. fst e = k) es) in if succs = [] then None else Some succs)"

text \<open>
  The invariant of the node registry while nodes are added: distinct keys have distinct
  ids, and the ids in use are the numbers below the next free id.
\<close>

definition ids_ok :: "graph \<Rightarrow> bool" where
  "ids_ok g \<longleftrightarrow> inj_on (nodes g) (dom (nodes g)) \<and> ran (nodes g) = {..<node_idx g}"

section \<open>A two-step scheme used as a concrete input\<close>

text \<open>
  Diagrams A, B, C and D on one line and two arrows with one conditions region each:
  step 1 turns A into the group B, C; step 2 turns the same group, listed as C, B, into D.
\<close>

definition diagram_at :: "real \<Rightarrow> diagram" where
  "diagram_at x = \<lparr>panel = Rect 0 x 10 (x + 10), smiles = None\<rparr>"

definition arrow_at :: "real \<Rightarrow> arrow" where
  "arrow_at x =
     \<lparr>panel = Rect 4 x 6 (x + 16), reference_pt = (x + 14, 5),
      children = [\<lparr>panel = Rect 8 x 12 (x + 16), coreactants = [], catalysts = [], other_species = []\<rparr>]\<rparr>"

definition two_steps :: "reaction_step list" where
  "two_steps =
     [\<lparr>step_arrow = arrow_at 12, reactants = [diagram_at 0], products = [diagram_at 30, diagram_at 42],
       single_line = True\<rparr>,
      \<lparr>step_arrow = arrow_at 54, reactants = [diagram_at 42, diagram_at 30], products = [diagram_at 72],
       single_line = True\<rparr>]"

section \<open>Crops of a figure (\<open>models/segments.py\<close>, classes \<open>Figure\<close> and \<open>Crop\<close>)\<close>

text \<open>
  Of a crop the model keeps the shape of its image (rows, columns), the cached list of
  connected components (\<open>None\<close> until it is computed), the rectangle that was cut out of
  the parent figure, and the recorded padding. The pixels are not modelled: where the
  source calls the labelling routine of the image library on the current image, the model
  takes the routine's result, a list of \<open>(x, y, width, height)\<close> boxes, as a parameter.
\<close>

datatype pad_width = PadInt int | PadSeq "(int \<times> int) \<times> (int \<times> int)"

record crop =
  img_shape_of :: "int \<times> int"
  connected_components :: "rect list option"
  cropped_rect :: rect
  padding :: "pad_width option"
  top_padding :: int
  left_padding :: int

text \<open>The length of the Python slice \<open>[start:stop]\<close> of a sequence of length \<open>n\<close>.\<close>

definition slice_index :: "int \<Rightarrow> int \<Rightarrow> int" where
  "slice_index n i = (if i < 0 then max 0 (i + n) else min i n)"

definition slice_length :: "int \<Rightarrow> int \<Rightarrow> int \<Rightarrow> int" where
  "slice_length n start stop = max 0 (slice_index n stop - slice_index n start)"

text \<open>
  \<open>Crop.__init__\<close> with \<open>Crop._crop_main_figure\<close>: the crop parameters are limited to
  the parent's image (a parameter that is 0 is falsy and replaced by its default; the
  default of \<open>bottom\<close> is the parent's width, as in the source), the image is sliced, and
  the figure part is initialised with no connected components and no padding.
\<close>

definition Crop_init :: "int \<times> int \<Rightarrow> int \<times> int \<times> int \<times> int \<Rightarrow> crop" where
  "Crop_init main_shape crop_params =
     (case main_shape of (h, w) \<Rightarrow>
      case crop_params of (t, l, b, r) \<Rightarrow>
        let l' = max 0 (if l \<noteq> 0 then l else 0);
            r' = min w (if r \<noteq> 0 then r else w);
            t' = max 0 (if t \<noteq> 0 then t else 0);
            b' = min h (if b \<noteq> 0 then b else w)
        in \<lparr>img_shape_of = (slice_length h t' b', slice_length w l' r'),
            connected_components = None,
            cropped_rect = Rect (of_int t') (of_int l') (of_int b') (of_int r'),
            padding = None, top_padding = 0, left_padding = 0\<rparr>)"

text \<open>
  \<open>Figure.area\<close> is the area of the bounding box of the image.
  \<open>Figure.set_connected_components\<close> builds a panel \<open>(y1, x1, y1 + h, x1 + w)\<close> for every
  labelled box whose area is below 95 per cent of the figure's area.
\<close>

definition figure_area :: "crop \<Rightarrow> real" where
  "figure_area self = (case img_shape_of self of (rows, cols) \<Rightarrow> area (Rect 0 0 (of_int rows) (of_int cols)))"

definition set_connected_components :: "(int \<times> int \<times> int \<times> int) list \<Rightarrow> crop \<Rightarrow> crop" where
  "set_connected_components stats self =
     self\<lparr>connected_components :=
       Some (map (\<lambda>(x1, y1, w, h). Rect (of_int y1) (of_int x1) (of_int (y1 + h)) (of_int (x1 + w)))
              (filter (\<lambda>(x1, y1, w, h). of_int (w * h) < figure_area self * (95 / 100)) stats))\<rparr>"

text \<open>
  \<open>Crop.pad_crop\<close>. Assigning to \<open>self.img\<close> goes through the setter of \<open>Figure\<close>,
  which, the image not being \<open>None\<close>, labels the padded image again
  (\<open>stats_padded\<close> is the result of the labelling routine on the padded image). Then the
  padding is recorded and every connected component is shifted by it. \<open>np.pad\<close> raises
  \<open>ValueError\<close> on a negative width.
\<close>

definition padded_shape :: "pad_width \<Rightarrow> int \<times> int \<Rightarrow> int \<times> int" where
  "padded_shape pw shape =
     (case shape of (rows, cols) \<Rightarrow>
      case pw of
        PadInt p \<Rightarrow> (rows + 2 * p, cols + 2 * p)
      | PadSeq ((a, b), (c, d)) \<Rightarrow> (rows + a + b, cols + c + d))"

definition pad_valid :: "pad_width \<Rightarrow> bool" where
  "pad_valid pw =
     (case pw of
        PadInt p \<Rightarrow> 0 \<le> p
      | PadSeq ((a, b), (c, d)) \<Rightarrow> 0 \<le> a \<and> 0 \<le> b \<and> 0 \<le> c \<and> 0 \<le> d)"

definition shift_component :: "int \<Rightarrow> int \<Rightarrow> rect \<Rightarrow> rect" where
  "shift_component tp lp cc =
     Rect (top cc + of_int tp) (left cc + of_int lp) (bottom cc + of_int tp) (right cc + of_int lp)"

definition pad_crop :: "(int \<times> int \<times> int \<times> int) list \<Rightarrow> pad_width \<Rightarrow> crop \<Rightarrow> error + crop" where
  "pad_crop stats_padded pw self =
     (if \<not> pad_valid pw then Inl ValueError
      else
        let relabelled = set_connected_components stats_padded
                           (self\<lparr>img_shape_of := padded_shape pw (img_shape_of self)\<rparr>);
            tp = (case pw of PadInt p \<Rightarrow> p | PadSeq ((a, b), (c, d)) \<Rightarrow> a);
            lp = (case pw of PadInt p \<Rightarrow> p | PadSeq ((a, b), (c, d)) \<Rightarrow> c)
        in Inr (relabelled\<lparr>padding := Some pw, top_padding := tp, left_padding := lp,
                  connected_components :=
                    map_option (map (shift_component tp lp)) (connected_components relabelled)\<rparr>))"

text \<open>
  \<open>Crop.in_main_fig\<close>: an element with a length of two is a point \<open>(y, x)\<close>; any other
  element is a panel. \<open>Crop.in_crop\<close> is the map in the other direction.
\<close>

datatype element = PointElem real real | PanelElem rect

fun in_main_fig :: "crop \<Rightarrow> element \<Rightarrow> element" where
  "in_main_fig self (PointElem y x) =
     PointElem (y + top (cropped_rect self) - of_int (top_padding self))
               (x + left (cropped_rect self) - of_int (left_padding self))"
| "in_main_fig self (PanelElem e) =
     (let new_top = top e + top (cropped_rect self) - of_int (top_padding self);
          new_bottom = new_top + height e - of_int (top_padding self);
          new_left = left e + left (cropped_rect self) - of_int (left_padding self);
          new_right = new_left + width e - of_int (left_padding self)
      in PanelElem (Rect new_top new_left new_bottom new_right))"

definition in_crop :: "crop \<Rightarrow> rect \<Rightarrow> rect" where
  "in_crop self cc =
     (let new_top = top cc - top (cropped_rect self);
          new_bottom = new_top + height cc;
          new_left = left cc - left (cropped_rect self);
          new_right = new_left + width cc
      in Rect new_top new_left new_bottom new_right)"

section \<open>The linear reaction string (\<open>ReactionScheme.to_smirks\<close>)\<close>

text \<open>
  \<open>to_smirks\<close> walks \<open>self._graph_dict\<close>, a dictionary from nodes to lists of successor
  nodes. A node is a frozenset of diagrams (here the list of its diagrams in iteration
  order) or a conditions region. Keys are compared with \<open>==\<close>: two groups by their sets of
  panels, two conditions regions by their panels. The dictionary is an association list,
  looked up from the front.
\<close>

datatype node = GroupNode "diagram list" | ConditionsNode conditions

fun node_eq :: "node \<Rightarrow> node \<Rightarrow> bool" where
  "node_eq (GroupNode xs) (GroupNode ys) \<longleftrightarrow> set (map panel xs) = set (map panel ys)"
| "node_eq (ConditionsNode c) (ConditionsNode c') \<longleftrightarrow> panel c = panel c'"
| "node_eq (GroupNode xs) (ConditionsNode c) \<longleftrightarrow> False"
| "node_eq (ConditionsNode c) (GroupNode xs) \<longleftrightarrow> False"

fun dict_get :: "(node \<times> 'v) list \<Rightarrow> node \<Rightarrow> 'v option" where
  "dict_get [] k = None"
| "dict_get ((k', v) # kvs) k = (if node_eq k' k then Some v else dict_get kvs k)"

text \<open>\<open>sep.join(xs)\<close>.\<close>

fun py_join :: "string \<Rightarrow> string list \<Rightarrow> string" where
  "py_join sep [] = []"
| "py_join sep [x] = x"
| "py_join sep (x # y # ys) = x @ sep @ py_join sep (y # ys)"

text \<open>
  The string of one node. For a group the SMILES of its diagrams are joined by a dot;
  \<open>join\<close> raises \<open>TypeError\<close> on a diagram without SMILES. For a conditions region the
  species of the coreactants and catalysts and the other species are joined, empty parts
  being filtered out.
\<close>

fun species_str :: "node \<Rightarrow> error + string" where
  "species_str (GroupNode ds) =
     (if list_ex (\<lambda>d. smiles d = None) ds then Inl TypeError
      else Inr (py_join ''.'' (map (\<lambda>d. case smiles d of Some s \<Rightarrow> s | None \<Rightarrow> []) ds)))"
| "species_str (ConditionsNode c) =
     (let species_vals = py_join ''.'' (coreactants c @ catalysts c);
          species_novals = py_join ''.'' (other_species c)
      in Inr (py_join ''.'' (filter (\<lambda>s. s \<noteq> []) [species_vals, species_novals])))"

text \<open>
  A \<open>ReactionScheme\<close> is a graph with the steps and the start and end nodes (both \<open>None\<close>
  after construction). \<open>to_smirks\<close> also reads the attributes \<open>_single_path\<close> and
  \<open>_graph_dict\<close>; an attribute that has not been assigned is \<open>None\<close> in the model, and
  reading it raises \<open>AttributeError\<close>. \<open>ReactionScheme.__init__\<close> assigns neither: the
  lines that would are commented out in the source.
\<close>

record reaction_scheme = graph +
  scheme_steps :: "reaction_step list"
  scheme_start :: "node list option"
  scheme_end :: "node list option"
  single_path :: "bool option"
  graph_dict :: "(node \<times> node list) list option"

definition ReactionScheme_init :: "reaction_step list \<Rightarrow> error + reaction_scheme" where
  "ReactionScheme_init steps =
     (case create_graph Graph_init steps of
        Inl e \<Rightarrow> Inl e
      | Inr g \<Rightarrow>
          Inr \<lparr>nodes = nodes g, adjacency = adjacency g, node_idx = node_idx g,
               scheme_steps = steps, scheme_start = None, scheme_end = None,
               single_path = None, graph_dict = None\<rparr>)"

text \<open>
  \<open>ReactionScheme.to_smirks\<close>. The method returns the constant \<open>NotImplemented\<close> when the
  scheme is not a single path, and otherwise calls itself on the first successor until a
  node has no successors. The source has no guard against a cycle, so the recursion
  carries fuel: \<open>None\<close> is a call that has not returned within the given depth.
\<close>

datatype smirks_result = NotImplemented | Smirks string

fun to_smirks ::
  "nat \<Rightarrow> reaction_scheme \<Rightarrow> node option \<Rightarrow> string list option \<Rightarrow> (error + smirks_result) option" where
  "to_smirks 0 self start_key species_strings = None"
| "to_smirks (Suc fuel) self start_key species_strings =
     (case single_path self of
        None \<Rightarrow> Some (Inl AttributeError)
      | Some False \<Rightarrow> Some (Inr NotImplemented)
      | Some True \<Rightarrow>
     (case graph_dict self of
        None \<Rightarrow> Some (Inl AttributeError)
      | Some gd \<Rightarrow>
     (case (case start_key of
              Some k \<Rightarrow> Inr k
            | None \<Rightarrow> (case scheme_start self of
                         None \<Rightarrow> Inl TypeError
                       | Some [] \<Rightarrow> Inl IndexError
                       | Some (k # ks) \<Rightarrow> Inr k)) of
        Inl e \<Rightarrow> Some (Inl e)
      | Inr nd \<Rightarrow>
     (case species_str nd of
        Inl e \<Rightarrow> Some (Inl e)
      | Inr species \<Rightarrow>
     (let strings = (case species_strings of None \<Rightarrow> [] | Some ss \<Rightarrow> ss) @ [species] in
      case dict_get gd nd of
        None \<Rightarrow> Some (Inl KeyError)
      | Some [] \<Rightarrow> Some (Inr (Smirks (py_join ''>'' strings)))
      | Some (successor # others) \<Rightarrow> to_smirks fuel self (Some successor) (Some strings))))))"

text \<open>
  Two schemes with SMILES: one step from ethanol to ethanal (one source, one sink), and
  two steps from ethanol, to ethanal and to ethene (one source, two sinks).
\<close>

definition ethanol :: diagram where
  "ethanol = \<lparr>panel = Rect 0 0 10 10, smiles = Some ''CCO''\<rparr>"

definition ethanal :: diagram where
  "ethanal = \<lparr>panel = Rect 0 30 10 40, smiles = Some ''CC=O''\<rparr>"

definition ethene :: diagram where
  "ethene = \<lparr>panel = Rect 40 0 50 10, smiles = Some ''C=C''\<rparr>"

definition oxidant :: conditions where
  "oxidant = \<lparr>panel = Rect 8 12 12 28, coreactants = [''[O]''], catalysts = [], other_species = []\<rparr>"

definition acid :: conditions where
  "acid = \<lparr>panel = Rect 14 0 36 4, coreactants = [], catalysts = [''OS(O)(=O)=O''], other_species = []\<rparr>"

definition one_step :: "reaction_step list" where
  "one_step =
     [\<lparr>step_arrow = \<lparr>panel = Rect 4 12 6 28, reference_pt = (26, 5), children = [oxidant]\<rparr>,
       reactants = [ethanol], products = [ethanal], single_line = True\<rparr>]"

definition two_sinks :: "reaction_step list" where
  "two_sinks =
     [\<lparr>step_arrow = \<lparr>panel = Rect 4 12 6 28, reference_pt = (26, 5), children = [oxidant]\<rparr>,
       reactants = [ethanol], products = [ethanal], single_line = True\<rparr>,
      \<lparr>step_arrow = \<lparr>panel = Rect 12 4 38 6, reference_pt = (5, 36), children = [acid]\<rparr>,
       reactants = [ethanol], products = [ethene], single_line = True\<rparr>]"

section \<open>Properties of the spatial algebra\<close>

lemma hypot_pos: "a \<noteq> 0 \<Longrightarrow> hypot a b \<noteq> 0"
  by (simp add: hypot_def power2_eq_square add_nonneg_eq_0_iff)

lemma edge_separation_rect_zero_iff:
  "edge_separation_rect a b = 0 \<longleftrightarrow>
     \<not> right b < left a \<and> \<not> right a < left b \<and> \<not> bottom a < top b \<and> \<not> bottom b < top a"
  by (auto simp: edge_separation_rect_def Let_def dist_pt_def dest: hypot_pos [THEN notE, rotated])

text \<open>
  C10. For regions \<open>a\<close> and \<open>b\<close> with top \<open>\<le>\<close> bottom and left \<open>\<le>\<close> right, the four flags
  returned by the relative-orientation test never have top and bottom both true, and never
  have left and right both true.
\<close>

theorem find_relative_orientation_exclusive:
  assumes "well_formed a" and "well_formed b"
  shows "case find_relative_orientation a b of
           (is_top, is_left, is_bottom, is_right) \<Rightarrow>
             \<not> (is_top \<and> is_bottom) \<and> \<not> (is_left \<and> is_right)"
  using assms by (auto simp: find_relative_orientation_def well_formed_def Let_def)

theorem find_relative_orientation_exclusive_witness:
  "well_formed (Rect 0 0 10 10) \<and> well_formed (Rect 20 30 40 50) \<and>
   (case find_relative_orientation (Rect 0 0 10 10) (Rect 20 30 40 50) of
      (is_top, is_left, is_bottom, is_right) \<Rightarrow>
        \<not> (is_top \<and> is_bottom) \<and> \<not> (is_left \<and> is_right)) \<and>
   find_relative_orientation (Rect 0 0 10 10) (Rect 20 30 40 50) = (False, False, True, True)"
proof -
  have wa: "well_formed (Rect 0 0 10 10)" and wb: "well_formed (Rect 20 30 40 50)"
    by (simp_all add: well_formed_def Rect_def)
  show ?thesis
    using wa wb find_relative_orientation_exclusive [OF wa wb]
    by (simp add: find_relative_orientation_def Rect_def)
qed

text \<open>
  C5, as the specification states it: \<open>edge_separation(A, B) = 0\<close> if and only if
  \<open>overlaps(A, B)\<close>. Two regions that share an edge refute it: no side of one lies strictly
  beyond the other, so the separation is 0, while \<open>overlaps\<close> asks for a strict overlap on
  both axes.
\<close>

theorem edge_separation_zero_iff_overlaps_counterexample:
  "well_formed (Rect 0 0 10 10) \<and> well_formed (Rect 0 10 10 20) \<and>
   edge_separation (Rect 0 0 10 10) (RectArg (Rect 0 10 10 20)) = 0 \<and>
   \<not> overlaps (Rect 0 0 10 10) (Rect 0 10 10 20)"
  by (simp add: well_formed_def Rect_def edge_separation_rect_def overlaps_def)

text \<open>
  C5, amended. For regions \<open>a\<close> and \<open>b\<close> with top \<open>\<le>\<close> bottom and left \<open>\<le>\<close> right:
  \<open>overlaps\<close> implies a separation of 0; the separation is 0 exactly when neither region
  lies strictly to one side of the other (they overlap or touch); and the separation is
  the same in both directions whenever the regions are not separated on both axes at once.
\<close>

theorem edge_separation_overlaps:
  assumes "well_formed a" and "well_formed b"
  shows "(overlaps a b \<longrightarrow> edge_separation a (RectArg b) = 0) \<and>
         (edge_separation a (RectArg b) = 0 \<longleftrightarrow>
            \<not> right b < left a \<and> \<not> right a < left b \<and>
            \<not> bottom a < top b \<and> \<not> bottom b < top a) \<and>
         (\<not> ((right b < left a \<or> right a < left b) \<and> (bottom a < top b \<or> bottom b < top a)) \<longrightarrow>
            edge_separation a (RectArg b) = edge_separation b (RectArg a))"
proof (intro conjI)
  show "overlaps a b \<longrightarrow> edge_separation a (RectArg b) = 0"
    by (auto simp: edge_separation_rect_zero_iff overlaps_def)
  show "edge_separation a (RectArg b) = 0 \<longleftrightarrow>
          \<not> right b < left a \<and> \<not> right a < left b \<and> \<not> bottom a < top b \<and> \<not> bottom b < top a"
    by (simp add: edge_separation_rect_zero_iff)
  show "\<not> ((right b < left a \<or> right a < left b) \<and> (bottom a < top b \<or> bottom b < top a)) \<longrightarrow>
          edge_separation a (RectArg b) = edge_separation b (RectArg a)"
    using assms by (auto simp: edge_separation_rect_def well_formed_def Let_def)
qed

theorem edge_separation_overlaps_witness:
  "well_formed (Rect 0 0 10 10) \<and> well_formed (Rect 5 5 20 20) \<and>
   overlaps (Rect 0 0 10 10) (Rect 5 5 20 20) \<and>
   edge_separation (Rect 0 0 10 10) (RectArg (Rect 5 5 20 20)) = 0 \<and>
   edge_separation (Rect 5 5 20 20) (RectArg (Rect 0 0 10 10)) = 0"
proof -
  have wa: "well_formed (Rect 0 0 10 10)" and wb: "well_formed (Rect 5 5 20 20)"
    by (simp_all add: well_formed_def Rect_def)
  have ov: "overlaps (Rect 0 0 10 10) (Rect 5 5 20 20)"
    by (simp add: overlaps_def Rect_def)
  show ?thesis
    using wa wb ov edge_separation_overlaps [OF wa wb]
    by (simp add: Rect_def)
qed

text \<open>
  In the diagonal cases the two directions can differ: three of the four corner branches
  measure from a corner of the first region that is not the one nearest to the second.
\<close>

lemma edge_separation_diagonal_differs:
  "well_formed (Rect 0 10 2 12) \<and> well_formed (Rect 5 0 20 5) \<and>
   edge_separation (Rect 0 10 2 12) (RectArg (Rect 5 0 20 5)) = sqrt 50 \<and>
   edge_separation (Rect 5 0 20 5) (RectArg (Rect 0 10 2 12)) = sqrt 349 \<and>
   sqrt 50 \<noteq> sqrt 349"
  by (simp add: well_formed_def edge_separation_rect_def dist_pt_def hypot_def Rect_def)

text \<open>
  C6. \<open>compute_iou\<close> evaluated on two regions that do not overlap: the region with
  top 0, left 5, bottom 10, right 10 and the region with top 0, left 12, bottom 10, right 20
  (the second lies wholly to the right of the first). The method reads the coordinates as
  (x, y, width, height) and returns 30 / 270.
\<close>

theorem compute_iou_disjoint_nonzero:
  "\<not> overlaps (Rect 0 5 10 10) (Rect 0 12 10 20) \<and>
   compute_iou (Rect 0 5 10 10) (Rect 0 12 10 20) = Inr (1 / 9)"
  by (simp add: overlaps_def compute_iou_def Rect_def)

text \<open>
  What does hold of the self-IoU: it is 1 when bottom and right are positive (as for a
  region of positive area with non-negative top and left); with negative coordinates a
  region of positive area can give 0.
\<close>

lemma compute_iou_self:
  assumes "0 < bottom a" and "0 < right a"
  shows "compute_iou a a = Inr 1"
  using assms by (simp add: compute_iou_def Let_def)

lemma compute_iou_self_negative:
  "0 < area (Rect (-5) (-5) (-1) (-1)) \<and>
   compute_iou (Rect (-5) (-5) (-1) (-1)) (Rect (-5) (-5) (-1) (-1)) = Inr 0"
  by (simp add: compute_iou_def area_def width_def height_def Rect_def)

section \<open>Properties of the scanning engine\<close>

lemma py_min_Min: "xs \<noteq> [] \<Longrightarrow> py_min xs = Inr (Min (set xs))"
  by (cases xs) (simp_all add: Min.set_eq_fold [symmetric])

lemma set_width_height:
  "set (concat (map (\<lambda>diag. [width (panel diag), height (panel diag)]) diags)) =
   (\<Union>d \<in> set diags. {width (panel d), height (panel d)})"
  by auto

text \<open>
  C8, as the specification states it: the segment length is the mean of the diagrams'
  half-perimeters. One diagram of width 40 and height 20 has a mean half-perimeter of 30;
  the set-up stores 15.
\<close>

theorem segment_length_mean_counterexample:
  "RoleProbe_init \<lparr>img_shape = (100, 300)\<rparr> []
     [\<lparr>panel = Rect 0 0 20 40, smiles = None\<rparr>] =
     Inr \<lparr>fig = \<lparr>img_shape = (100, 300)\<rparr>, arrows = [],
          diagrams = [\<lparr>panel = Rect 0 0 20 40, smiles = None\<rparr>],
          stepsize = 20, segment_length = 15, reaction_steps = []\<rparr> \<and>
   mean_half_perimeter [\<lparr>panel = Rect 0 0 20 40, smiles = None\<rparr>] = 30"
  by (simp add: RoleProbe_init_def mean_half_perimeter_def np_mean_def width_def height_def Rect_def)

text \<open>
  C8, amended. For every non-empty list of diagrams the set-up succeeds; the step size is
  the minimum over all diagrams of both width and height, and the segment length is the
  floor of half the mean of the diagrams' half-perimeters \<open>(width + height) / 2\<close>.
\<close>

theorem RoleProbe_init_parameters:
  assumes "diags \<noteq> []"
  shows "\<exists>rp. RoleProbe_init f arrs diags = Inr rp \<and>
              stepsize rp = min_width_height diags \<and>
              segment_length rp = of_int \<lfloor>mean_half_perimeter diags / 2\<rfloor>"
proof -
  let ?dims = "concat (map (\<lambda>diag. [width (panel diag), height (panel diag)]) diags)"
  from assms have "?dims \<noteq> []"
    by (cases diags) simp_all
  then have "py_min ?dims = Inr (Min (set ?dims))"
    by (rule py_min_Min)
  then show ?thesis
    by (simp add: RoleProbe_init_def min_width_height_def mean_half_perimeter_def np_mean_def
        set_width_height)
qed

theorem RoleProbe_init_parameters_witness:
  "[\<lparr>panel = Rect 0 0 20 40, smiles = None\<rparr>, \<lparr>panel = Rect 0 100 50 130, smiles = None\<rparr>] \<noteq> [] \<and>
   (\<exists>rp. RoleProbe_init \<lparr>img_shape = (100, 300)\<rparr> []
           [\<lparr>panel = Rect 0 0 20 40, smiles = None\<rparr>, \<lparr>panel = Rect 0 100 50 130, smiles = None\<rparr>] = Inr rp \<and>
         stepsize rp = 20 \<and> segment_length rp = 17)"
proof -
  let ?ds = "[\<lparr>panel = Rect 0 0 20 40, smiles = None\<rparr>, \<lparr>panel = Rect 0 100 50 130, smiles = None\<rparr>]"
  have ne: "?ds \<noteq> []" by simp
  have m: "min_width_height ?ds = 20"
    by (simp add: min_width_height_def width_def height_def Rect_def)
  have s: "mean_half_perimeter ?ds = 35"
    by (simp add: mean_half_perimeter_def width_def height_def Rect_def)
  show ?thesis
    using RoleProbe_init_parameters [OF ne, of "\<lparr>img_shape = (100, 300)\<rparr>" "[]"]
    by (simp add: m s)
qed

lemma compute_ref_group_dist_min:
  "grp \<noteq> [] \<Longrightarrow> compute_ref_group_dist grp pt = Inr (min_edge_separation grp pt)"
  by (simp add: compute_ref_group_dist_def min_edge_separation_def py_min_Min)

lemma min_edge_separation_cong:
  "group_eq g h \<Longrightarrow> min_edge_separation g pt = min_edge_separation h pt"
proof -
  assume "group_eq g h"
  then have "panel ` set g = panel ` set h"
    unfolding group_eq_def by (metis set_map)
  then have "(\<lambda>r. edge_separation r (PairArg (fst pt) (snd pt))) ` panel ` set g =
             (\<lambda>r. edge_separation r (PairArg (fst pt) (snd pt))) ` panel ` set h"
    by simp
  then show ?thesis
    by (simp add: min_edge_separation_def image_image)
qed

text \<open>
  What \<open>assign_diags\<close> does for two non-empty groups, in terms of the separations the code
  itself computes: the group with the smaller computed minimum is returned as the
  products (the result is the pair reactants, products).
\<close>

lemma assign_diags_smaller_computed_separation:
  assumes "group1 \<noteq> []" and "group2 \<noteq> []"
  shows "(min_edge_separation group1 (reference_pt arr) < min_edge_separation group2 (reference_pt arr) \<longrightarrow>
            assign_diags group1 group2 arr = Inr (group2, group1)) \<and>
         (min_edge_separation group2 (reference_pt arr) < min_edge_separation group1 (reference_pt arr) \<longrightarrow>
            assign_diags group1 group2 arr = Inr (group1, group2))"
proof (intro conjI impI)
  assume "min_edge_separation group1 (reference_pt arr) < min_edge_separation group2 (reference_pt arr)"
  then show "assign_diags group1 group2 arr = Inr (group2, group1)"
    using assms by (simp add: assign_diags_def compute_ref_group_dist_min group_eq_def)
next
  assume lt: "min_edge_separation group2 (reference_pt arr) < min_edge_separation group1 (reference_pt arr)"
  then have "\<not> group_eq group1 group2"
    using min_edge_separation_cong [of group1 group2 "reference_pt arr"] by auto
  with lt show "assign_diags group1 group2 arr = Inr (group1, group2)"
    using assms by (simp add: assign_diags_def compute_ref_group_dist_min)
qed

lemma hypot_zero_right: "hypot a 0 = \<bar>a\<bar>"
  by (simp add: hypot_def)

lemma hypot_minus: "hypot (- a) (- b) = hypot a b"
  by (simp add: hypot_def)

text \<open>
  Where the code's separation is the distance between the nearest edges or corners: for
  regions that are not separated on both axes, and in the one corner branch (the second
  region above and to the left of the first) that measures between the nearest corners.
\<close>

lemma edge_separation_rect_one_axis:
  assumes "well_formed a" and "well_formed b"
    and "\<not> ((right b < left a \<or> right a < left b) \<and> (bottom a < top b \<or> bottom b < top a))"
  shows "edge_separation_rect a b = nearest_edge_distance a b"
  using assms
  by (auto simp: edge_separation_rect_def nearest_edge_distance_def well_formed_def Let_def
      hypot_zero_right max_def hypot_def)

lemma edge_separation_rect_top_left:
  assumes "well_formed a" and "well_formed b" and "bottom b < top a" and "right b < left a"
  shows "edge_separation_rect a b = nearest_edge_distance a b"
proof -
  from assms have "edge_separation_rect a b = hypot (right b - left a) (bottom b - top a)"
    by (simp add: edge_separation_rect_def dist_pt_def)
  also have "\<dots> = hypot (left a - right b) (top a - bottom b)"
    using hypot_minus [of "left a - right b" "top a - bottom b"] by simp
  also from assms have "\<dots> = nearest_edge_distance a b"
    by (simp add: nearest_edge_distance_def well_formed_def max_def)
  finally show ?thesis .
qed

text \<open>
  C2. \<open>assign_diags\<close> evaluated for the arrow with reference point \<open>(300, 104)\<close> and the
  two groups beside it. The nearest corner of the upper right diagram is 5 away from the
  reference point and the nearest edge of the left diagram is 60 away, so the upper right
  diagram is the closer group. The code measures the upper right diagram from its upper
  left corner (the branch "bottom and left"), gets the square root of 10825, about 104,
  and returns the left diagram as the products, whichever group is passed first.
\<close>

theorem assign_diags_farther_group_products:
  "nearest_group_distance [upper_right_diagram] (reference_pt arrow_between) = 5 \<and>
   nearest_group_distance [left_diagram] (reference_pt arrow_between) = 60 \<and>
   edge_separation (panel upper_right_diagram) (PairArg 300 104) = sqrt 10825 \<and>
   edge_separation (panel left_diagram) (PairArg 300 104) = 60 \<and>
   assign_diags [left_diagram] [upper_right_diagram] arrow_between =
     Inr ([upper_right_diagram], [left_diagram]) \<and>
   assign_diags [upper_right_diagram] [left_diagram] arrow_between =
     Inr ([upper_right_diagram], [left_diagram])"
proof -
  have five: "sqrt 25 = 5"
    using real_sqrt_abs [of 5] by simp
  have far: "60 < sqrt 10825"
    by (rule real_less_rsqrt) simp
  have n1: "nearest_group_distance [upper_right_diagram] (reference_pt arrow_between) = 5"
    by (simp add: nearest_group_distance_def nearest_edge_distance_def hypot_def
        upper_right_diagram_def arrow_between_def Rect_def five)
  have n2: "nearest_group_distance [left_diagram] (reference_pt arrow_between) = 60"
    by (simp add: nearest_group_distance_def nearest_edge_distance_def hypot_def
        left_diagram_def arrow_between_def Rect_def)
  have e1: "edge_separation (panel upper_right_diagram) (PairArg 300 104) = sqrt 10825"
    by (simp add: edge_separation_rect_def dist_pt_def hypot_def upper_right_diagram_def Rect_def)
  have e2: "edge_separation (panel left_diagram) (PairArg 300 104) = 60"
    by (simp add: edge_separation_rect_def left_diagram_def Rect_def)
  have ne: "\<not> group_eq [left_diagram] [upper_right_diagram]"
    "\<not> group_eq [upper_right_diagram] [left_diagram]"
    by (simp_all add: group_eq_def left_diagram_def upper_right_diagram_def Rect_def)
  have ref: "reference_pt arrow_between = (300, 104)"
    by (simp add: arrow_between_def)
  have a1: "assign_diags [left_diagram] [upper_right_diagram] arrow_between =
     Inr ([upper_right_diagram], [left_diagram])"
    using far e1 e2 by (simp add: assign_diags_def compute_ref_group_dist_def ref group_eq_def)
  have a2: "assign_diags [upper_right_diagram] [left_diagram] arrow_between =
     Inr ([upper_right_diagram], [left_diagram])"
    using far ne e1 e2 by (simp add: assign_diags_def compute_ref_group_dist_def ref)
  from n1 n2 e1 e2 a1 a2 show ?thesis by blast
qed

text \<open>
  C9. The per-arrow probe evaluated where the scan finds no diagram on one side and the
  search on another line finds none either: \<open>assign_diags\<close> takes the minimum over the
  empty group, the probe raises \<open>ValueError\<close>, and no step is recorded. The older
  \<open>separate_ccs\<close> returns an empty cluster without raising.
\<close>

theorem probe_around_arrow_empty_group_raises:
  "assign_diags [] [\<lparr>panel = Rect 0 60 10 100, smiles = None\<rparr>]
     \<lparr>panel = Rect 4 25 6 55, reference_pt = (50, 5), children = []\<rparr> = Inl ValueError \<and>
   probe_around_arrow
     (\<lambda>switch. if switch = - 1 then Inr [] else Inr [\<lparr>panel = Rect 0 60 10 100, smiles = None\<rparr>])
     (\<lambda>direction switch. Inr [])
     \<lparr>fig = \<lparr>img_shape = (100, 300)\<rparr>, arrows = [\<lparr>panel = Rect 4 25 6 55, reference_pt = (50, 5), children = []\<rparr>],
      diagrams = [\<lparr>panel = Rect 0 60 10 100, smiles = None\<rparr>], stepsize = 10, segment_length = 12,
      reaction_steps = []\<rparr>
     \<lparr>panel = Rect 4 25 6 55, reference_pt = (50, 5), children = []\<rparr> = Inl ValueError \<and>
   separate_ccs [Rect 0 60 10 100] (40, 5) (50, 5) = ([], [Rect 0 60 10 100])"
  by (simp add: assign_diags_def compute_ref_group_dist_def probe_around_arrow_def center_def
      edge_separation_rect_def Rect_def)

lemma index_True_None: "index_True bs = None \<longleftrightarrow> (\<forall>b \<in> set bs. \<not> b)"
  by (induction bs) auto

lemma index_True_Some:
  "index_True bs = Some i \<longleftrightarrow> i < length bs \<and> bs ! i \<and> (\<forall>j < i. \<not> bs ! j)"
proof (induction bs arbitrary: i)
  case Nil
  then show ?case by simp
next
  case (Cons b bs)
  show ?case
  proof (cases b)
    case True
    then show ?thesis by (cases i) auto
  next
    case False
    show ?thesis
    proof (cases i)
      case 0
      with False show ?thesis by simp
    next
      case (Suc k)
      have "(\<forall>j < Suc k. \<not> (b # bs) ! j) \<longleftrightarrow> (\<forall>j < k. \<not> bs ! j)"
        using False by (auto simp: less_Suc_eq_0_disj)
      with False Suc Cons.IH [of k] show ?thesis by auto
    qed
  qed
qed

text \<open>
  C7, as the specification states it: the first overlap within the first two segments
  leaves the sequence whole, a later one cuts it. With the first overlap at the third
  segment (index 2) the sequence of four segments is kept whole.
\<close>

theorem retained_lines_third_segment_counterexample:
  "arrow_overlap
     [\<lparr>panel = Rect 0 0 10 30, reference_pt = (25, 5), children = []\<rparr>,
      \<lparr>panel = Rect 0 100 10 120, reference_pt = (115, 5), children = []\<rparr>]
     \<lparr>panel = Rect 0 0 10 30, reference_pt = (25, 5), children = []\<rparr>
     [((40, - 10), (40, 20)), ((70, - 10), (70, 20)), ((105, - 10), (105, 20)), ((130, - 10), (130, 20))] = Some 2 \<and>
   retained_lines
     [\<lparr>panel = Rect 0 0 10 30, reference_pt = (25, 5), children = []\<rparr>,
      \<lparr>panel = Rect 0 100 10 120, reference_pt = (115, 5), children = []\<rparr>]
     \<lparr>panel = Rect 0 0 10 30, reference_pt = (25, 5), children = []\<rparr>
     [((40, - 10), (40, 20)), ((70, - 10), (70, 20)), ((105, - 10), (105, 20)), ((130, - 10), (130, 20))] =
     [((40, - 10), (40, 20)), ((70, - 10), (70, 20)), ((105, - 10), (105, 20)), ((130, - 10), (130, 20))]"
  by (simp add: retained_lines_def arrow_overlap_def overlaps_other_arrow_def check_overlap_def Rect_def)

text \<open>
  C7, amended. For an arrow of the scheme and any sequence of probing segments: when no
  segment overlaps the region of another arrow the sequence is kept whole; when the first
  overlapping segment has index \<open>i\<close> (counting from 0), the sequence is cut to the \<open>i\<close>
  segments before it if \<open>i\<close> is greater than 2, and kept whole if that segment is among
  the first three.
\<close>

theorem retained_lines_truncation:
  assumes "arr \<in> set arrs"
  shows "((\<forall>l \<in> set lines. \<not> overlaps_other_arrow (remove1 arr arrs) l) \<longrightarrow>
            retained_lines arrs arr lines = lines) \<and>
         (i < length lines \<and> overlaps_other_arrow (remove1 arr arrs) (lines ! i) \<and>
          (\<forall>j < i. \<not> overlaps_other_arrow (remove1 arr arrs) (lines ! j)) \<longrightarrow>
            retained_lines arrs arr lines = (if 2 < i then take i lines else lines))"
proof (intro conjI impI)
  assume "\<forall>l \<in> set lines. \<not> overlaps_other_arrow (remove1 arr arrs) l"
  then have "index_True (map (overlaps_other_arrow (remove1 arr arrs)) lines) = None"
    by (simp add: index_True_None)
  with assms show "retained_lines arrs arr lines = lines"
    by (simp add: retained_lines_def arrow_overlap_def)
next
  assume "i < length lines \<and> overlaps_other_arrow (remove1 arr arrs) (lines ! i) \<and>
          (\<forall>j < i. \<not> overlaps_other_arrow (remove1 arr arrs) (lines ! j))"
  then have "index_True (map (overlaps_other_arrow (remove1 arr arrs)) lines) = Some i"
    by (simp add: index_True_Some)
  with assms show "retained_lines arrs arr lines = (if 2 < i then take i lines else lines)"
    by (simp add: retained_lines_def arrow_overlap_def)
qed

theorem retained_lines_truncation_witness:
  "\<lparr>panel = Rect 0 0 10 30, reference_pt = (25, 5), children = []\<rparr> \<in>
     set [\<lparr>panel = Rect 0 0 10 30, reference_pt = (25, 5), children = []\<rparr>,
          \<lparr>panel = Rect 0 100 10 120, reference_pt = (115, 5), children = []\<rparr>] \<and>
   overlaps_other_arrow [\<lparr>panel = Rect 0 100 10 120, reference_pt = (115, 5), children = []\<rparr>]
     ((105, - 10), (105, 20)) \<and>
   \<not> overlaps_other_arrow [\<lparr>panel = Rect 0 100 10 120, reference_pt = (115, 5), children = []\<rparr>]
     ((40, - 10), (40, 20)) \<and>
   \<not> overlaps_other_arrow [\<lparr>panel = Rect 0 100 10 120, reference_pt = (115, 5), children = []\<rparr>]
     ((70, - 10), (70, 20)) \<and>
   \<not> overlaps_other_arrow [\<lparr>panel = Rect 0 100 10 120, reference_pt = (115, 5), children = []\<rparr>]
     ((90, - 10), (90, 20)) \<and>
   retained_lines
     [\<lparr>panel = Rect 0 0 10 30, reference_pt = (25, 5), children = []\<rparr>,
      \<lparr>panel = Rect 0 100 10 120, reference_pt = (115, 5), children = []\<rparr>]
     \<lparr>panel = Rect 0 0 10 30, reference_pt = (25, 5), children = []\<rparr>
     [((40, - 10), (40, 20)), ((70, - 10), (70, 20)), ((90, - 10), (90, 20)), ((105, - 10), (105, 20)),
      ((130, - 10), (130, 20))] =
     [((40, - 10), (40, 20)), ((70, - 10), (70, 20)), ((90, - 10), (90, 20))]"
proof -
  let ?a = "\<lparr>panel = Rect 0 0 10 30, reference_pt = (25, 5), children = []\<rparr>"
  let ?b = "\<lparr>panel = Rect 0 100 10 120, reference_pt = (115, 5), children = []\<rparr>"
  let ?ls = "[((40, - 10), (40, 20)), ((70, - 10), (70, 20)), ((90, - 10), (90, 20)),
              ((105, - 10), (105, 20)), ((130, - 10), (130, 20))] :: segment list"
  have mem: "?a \<in> set [?a, ?b]" by simp
  have rm: "remove1 ?a [?a, ?b] = [?b]" by simp
  have hit: "overlaps_other_arrow [?b] ((105, - 10), (105, 20))"
    by (simp add: overlaps_other_arrow_def check_overlap_def Rect_def)
  have miss: "\<not> overlaps_other_arrow [?b] ((40, - 10), (40, 20))"
    "\<not> overlaps_other_arrow [?b] ((70, - 10), (70, 20))"
    "\<not> overlaps_other_arrow [?b] ((90, - 10), (90, 20))"
    by (simp_all add: overlaps_other_arrow_def check_overlap_def Rect_def)
  have before: "\<forall>j < 3. \<not> overlaps_other_arrow [?b] (?ls ! j)"
    using miss by (auto simp: less_Suc_eq numeral_3_eq_3)
  have at: "overlaps_other_arrow [?b] (?ls ! 3)"
    using hit by (simp add: numeral_3_eq_3)
  show ?thesis
    using retained_lines_truncation [OF mem, of ?ls 3] before at hit miss
    by (simp add: rm)
qed

section \<open>Properties of the scheme graph\<close>

lemma ids_ok_init: "ids_ok Graph_init"
  by (simp add: ids_ok_def Graph_init_def)

lemma dom_add_node: "dom (nodes (add_node g x)) = insert (frozenset x) (dom (nodes g))"
  by (auto simp: add_node_def)

lemma adjacency_add_node: "adjacency (add_node g x) = adjacency g"
  by (simp add: add_node_def)

lemma ids_ok_add_node:
  assumes "ids_ok g"
  shows "ids_ok (add_node g x)"
proof (cases "frozenset x \<in> dom (nodes g)")
  case True
  with assms show ?thesis by (simp add: add_node_def)
next
  case False
  from assms have inj: "inj_on (nodes g) (dom (nodes g))" and r: "ran (nodes g) = {..<node_idx g}"
    by (simp_all add: ids_ok_def)
  have fresh: "\<And>k. nodes g k \<noteq> Some (node_idx g)"
  proof
    fix k assume "nodes g k = Some (node_idx g)"
    then have "node_idx g \<in> ran (nodes g)" by (rule ranI)
    with r show False by simp
  qed
  have "inj_on ((nodes g)(frozenset x \<mapsto> node_idx g)) (insert (frozenset x) (dom (nodes g)))"
    using inj fresh by (auto simp: inj_on_def dom_def)
  moreover have "ran ((nodes g)(frozenset x \<mapsto> node_idx g)) = {..<Suc (node_idx g)}"
    using False r by (auto simp: ran_map_upd domIff lessThan_Suc)
  ultimately show ?thesis
    using False by (simp add: ids_ok_def add_node_def)
qed

lemma register_nodes_props:
  "ids_ok g \<Longrightarrow>
   ids_ok (register_nodes g steps) \<and>
   dom (nodes (register_nodes g steps)) = dom (nodes g) \<union> step_keys steps \<and>
   adjacency (register_nodes g steps) = adjacency g"
proof (induction steps arbitrary: g)
  case Nil
  then show ?case by (simp add: step_keys_def)
next
  case (Cons step steps)
  let ?g = "add_node (add_node (add_node g (Species (reactants step))) (Species (products step)))
              (Conds (step_conditions step))"
  have ok: "ids_ok ?g"
    using Cons.prems by (intro ids_ok_add_node)
  have d: "dom (nodes ?g) = dom (nodes g) \<union> step_keys [step]"
    by (auto simp: dom_add_node step_keys_def)
  have a: "adjacency ?g = adjacency g"
    by (simp add: adjacency_add_node)
  have k: "step_keys (step # steps) = step_keys [step] \<union> step_keys steps"
    by (auto simp: step_keys_def)
  from Cons.IH [OF ok] show ?case
    by (simp add: d a k Un_assoc)
qed

lemma successors_in_snoc:
  "successors_in (es @ [(a, b)]) =
   (successors_in es)(a \<mapsto> (case successors_in es a of Some xs \<Rightarrow> xs | None \<Rightarrow> []) @ [b])"
  by (rule ext) (simp add: successors_in_def Let_def)

lemma generate_edge_props:
  assumes "frozenset key \<in> dom (nodes g)" and "frozenset successor \<in> dom (nodes g)"
    and "adjacency g = successors_in es"
  shows "\<exists>g'. generate_edge g key successor = Inr g' \<and> nodes g' = nodes g \<and>
              node_idx g' = node_idx g \<and>
              adjacency g' = successors_in (es @ [(node_id g key, node_id g successor)])"
proof -
  from assms(1) obtain k where k: "nodes g (frozenset key) = Some k" by auto
  from assms(2) obtain s where s: "nodes g (frozenset successor) = Some s" by auto
  show ?thesis
  proof (cases "successors_in es k")
    case None
    with k s assms(3) show ?thesis
      by (simp add: generate_edge_def node_id_def successors_in_snoc)
  next
    case (Some xs)
    then have "xs \<noteq> []"
      by (auto simp: successors_in_def Let_def split: if_splits)
    then obtain y ys where "xs = y # ys" by (cases xs) auto
    with Some k s assms(3) show ?thesis
      by (simp add: generate_edge_def node_id_def successors_in_snoc)
  qed
qed

lemma node_id_cong: "nodes g' = nodes g \<Longrightarrow> node_id g' = node_id g"
  by (rule ext) (simp add: node_id_def)

lemma step_edges_cong: "nodes g' = nodes g \<Longrightarrow> step_edges g' steps = step_edges g steps"
  by (simp add: step_edges_def node_id_cong [of g' g])

lemma generate_edges_props:
  "step_keys steps \<subseteq> dom (nodes g) \<Longrightarrow> adjacency g = successors_in es \<Longrightarrow>
   \<exists>g'. generate_edges g steps = Inr g' \<and> nodes g' = nodes g \<and> node_idx g' = node_idx g \<and>
        adjacency g' = successors_in (es @ step_edges g steps)"
proof (induction steps arbitrary: g es)
  case Nil
  then show ?case by (simp add: step_edges_def)
next
  case (Cons step steps)
  let ?r = "Species (reactants step)" and ?c = "Conds (step_conditions step)"
  let ?p = "Species (products step)"
  from Cons.prems(1) have in_dom: "frozenset ?r \<in> dom (nodes g)" "frozenset ?c \<in> dom (nodes g)"
      "frozenset ?p \<in> dom (nodes g)" and rest: "step_keys steps \<subseteq> dom (nodes g)"
    by (auto simp: step_keys_def)
  from generate_edge_props [OF in_dom(1) in_dom(2) Cons.prems(2)]
  obtain g1 where g1: "generate_edge g ?r ?c = Inr g1" "nodes g1 = nodes g" "node_idx g1 = node_idx g"
      "adjacency g1 = successors_in (es @ [(node_id g ?r, node_id g ?c)])"
    by blast
  from in_dom g1(2) have "frozenset ?c \<in> dom (nodes g1)" "frozenset ?p \<in> dom (nodes g1)"
    by simp_all
  from generate_edge_props [OF this g1(4)]
  obtain g2 where g2: "generate_edge g1 ?c ?p = Inr g2" "nodes g2 = nodes g1" "node_idx g2 = node_idx g1"
      "adjacency g2 = successors_in ((es @ [(node_id g ?r, node_id g ?c)]) @ [(node_id g1 ?c, node_id g1 ?p)])"
    by blast
  from rest g1(2) g2(2) have "step_keys steps \<subseteq> dom (nodes g2)" by simp
  from Cons.IH [OF this g2(4)]
  obtain g' where g': "generate_edges g2 steps = Inr g'" "nodes g' = nodes g2" "node_idx g' = node_idx g2"
      "adjacency g' = successors_in (((es @ [(node_id g ?r, node_id g ?c)]) @
         [(node_id g1 ?c, node_id g1 ?p)]) @ step_edges g2 steps)"
    by blast
  have n2: "nodes g2 = nodes g" using g1(2) g2(2) by simp
  have "step_edges g (step # steps) =
        [(node_id g ?r, node_id g ?c), (node_id g1 ?c, node_id g1 ?p)] @ step_edges g2 steps"
    by (simp add: step_edges_def node_id_cong [OF g1(2)] node_id_cong [OF n2])
  with g1 g2 g' show ?case by simp
qed

text \<open>
  C1. Building the graph from any ordered list of steps succeeds. The registered keys
  are exactly the groups and conditions of the steps as sets; distinct keys have distinct
  ids, and the ids are the numbers below the number of keys; groups of two steps with the
  same set of diagrams have one shared id; and the adjacency of every id lists, in step
  order, the targets of the edges reactants \<open>\<rightarrow>\<close> conditions and conditions \<open>\<rightarrow>\<close> products
  that leave it.
\<close>

theorem create_graph_nodes_and_edges:
  "\<exists>g. create_graph Graph_init steps = Inr g \<and>
       dom (nodes g) = step_keys steps \<and>
       inj_on (nodes g) (dom (nodes g)) \<and>
       ran (nodes g) = {..<card (step_keys steps)} \<and>
       (\<forall>s \<in> set steps. \<forall>s' \<in> set steps.
          set (map panel (products s)) = set (map panel (reactants s')) \<longrightarrow>
          (\<exists>i. nodes g (frozenset (Species (products s))) = Some i \<and>
               nodes g (frozenset (Species (reactants s'))) = Some i)) \<and>
       (\<forall>k. adjacency g k = successors_in (step_edges g steps) k)"
proof -
  let ?g0 = "register_nodes Graph_init steps"
  from register_nodes_props [OF ids_ok_init, of steps]
  have ok: "ids_ok ?g0" and d: "dom (nodes ?g0) = step_keys steps"
    and a: "adjacency ?g0 = Map.empty"
    by (simp_all add: Graph_init_def)
  have a0: "adjacency ?g0 = successors_in []"
    by (rule ext) (simp add: a successors_in_def)
  from d have "step_keys steps \<subseteq> dom (nodes ?g0)" by simp
  from generate_edges_props [OF this a0]
  obtain g where g: "generate_edges ?g0 steps = Inr g" "nodes g = nodes ?g0"
      "node_idx g = node_idx ?g0" "adjacency g = successors_in ([] @ step_edges ?g0 steps)"
    by blast
  have inj: "inj_on (nodes g) (dom (nodes g))" and r: "ran (nodes g) = {..<node_idx g}"
    using ok g(2,3) by (simp_all add: ids_ok_def)
  have dg: "dom (nodes g) = step_keys steps" using d g(2) by simp
  have fin: "finite (step_keys steps)" by (simp add: step_keys_def)
  have "card (dom (nodes g)) = card (nodes g ` dom (nodes g))"
    using inj by (simp add: card_image)
  also have "nodes g ` dom (nodes g) = Some ` ran (nodes g)"
    by (auto simp: ran_def dom_def image_iff) metis
  also have "card (Some ` ran (nodes g)) = card (ran (nodes g))"
    by (simp add: card_image)
  finally have c: "node_idx g = card (step_keys steps)"
    using r dg by simp
  have shared: "\<forall>s \<in> set steps. \<forall>s' \<in> set steps.
          set (map panel (products s)) = set (map panel (reactants s')) \<longrightarrow>
          (\<exists>i. nodes g (frozenset (Species (products s))) = Some i \<and>
               nodes g (frozenset (Species (reactants s'))) = Some i)"
  proof (intro ballI impI)
    fix s s' assume s: "s \<in> set steps" and s': "s' \<in> set steps"
      and eq: "set (map panel (products s)) = set (map panel (reactants s'))"
    from s have "frozenset (Species (products s)) \<in> dom (nodes g)"
      unfolding dg step_keys_def by blast
    then obtain i where i: "nodes g (frozenset (Species (products s))) = Some i" by auto
    have fs: "frozenset (Species ds) = DiagramMember ` panel ` set ds" for ds
      by (simp add: image_image)
    from eq have "panel ` set (reactants s') = panel ` set (products s)" by simp
    then have "frozenset (Species (reactants s')) = frozenset (Species (products s))"
      by (simp only: fs)
    with i have "nodes g (frozenset (Species (reactants s'))) = Some i"
      by (simp only:)
    with i show "\<exists>i. nodes g (frozenset (Species (products s))) = Some i \<and>
               nodes g (frozenset (Species (reactants s'))) = Some i"
      by blast
  qed
  have adj: "\<forall>k. adjacency g k = successors_in (step_edges g steps) k"
    using g(4) step_edges_cong [OF g(2), of steps] by simp
  show ?thesis
  proof (intro exI [of _ g] conjI)
    show "create_graph Graph_init steps = Inr g"
      using g(1) by (simp add: create_graph_def)
    show "dom (nodes g) = step_keys steps"
      by (fact dg)
    show "inj_on (nodes g) (dom (nodes g))"
      by (fact inj)
    show "ran (nodes g) = {..<card (step_keys steps)}"
      using r c by simp
    show "\<forall>s \<in> set steps. \<forall>s' \<in> set steps.
          set (map panel (products s)) = set (map panel (reactants s')) \<longrightarrow>
          (\<exists>i. nodes g (frozenset (Species (products s))) = Some i \<and>
               nodes g (frozenset (Species (reactants s'))) = Some i)"
      by (fact shared)
    show "\<forall>k. adjacency g k = successors_in (step_edges g steps) k"
      by (fact adj)
  qed
qed
theorem create_graph_nodes_and_edges_witness:
  "\<exists>g. create_graph Graph_init two_steps = Inr g \<and>
       dom (nodes g) = step_keys two_steps \<and>
       node_idx g = 5 \<and>
       nodes g (frozenset (Species [diagram_at 0])) = Some 0 \<and>
       nodes g (frozenset (Species [diagram_at 30, diagram_at 42])) = Some 1 \<and>
       nodes g (frozenset (Species [diagram_at 42, diagram_at 30])) = Some 1 \<and>
       nodes g (frozenset (Conds (children (arrow_at 12)))) = Some 2 \<and>
       nodes g (frozenset (Species [diagram_at 72])) = Some 3 \<and>
       nodes g (frozenset (Conds (children (arrow_at 54)))) = Some 4 \<and>
       adjacency g 0 = Some [2] \<and> adjacency g 2 = Some [1] \<and>
       adjacency g 1 = Some [4] \<and> adjacency g 4 = Some [3] \<and> adjacency g 3 = None"
proof -
  from create_graph_nodes_and_edges [of two_steps]
  obtain g where g: "create_graph Graph_init two_steps = Inr g"
    and d: "dom (nodes g) = step_keys two_steps"
    by blast
  have k: "{DiagramMember (Rect 0 30 10 40), DiagramMember (Rect 0 42 10 52)} =
           {DiagramMember (Rect 0 42 10 52), DiagramMember (Rect 0 30 10 40)}"
    by (rule insert_commute)
  have ev: "create_graph Graph_init two_steps =
     Inr \<lparr>nodes = [{DiagramMember (Rect 0 0 10 10)} \<mapsto> 0,
                    {DiagramMember (Rect 0 30 10 40), DiagramMember (Rect 0 42 10 52)} \<mapsto> 1,
                    {ConditionsMember (Rect 8 12 12 28)} \<mapsto> 2,
                    {DiagramMember (Rect 0 72 10 82)} \<mapsto> 3,
                    {ConditionsMember (Rect 8 54 12 70)} \<mapsto> 4],
          adjacency = [0 \<mapsto> [2], 2 \<mapsto> [1], 1 \<mapsto> [4], 4 \<mapsto> [3]],
          node_idx = 5\<rparr>"
    by (simp add: create_graph_def two_steps_def Graph_init_def add_node_def generate_edge_def
        step_conditions_def diagram_at_def arrow_at_def Rect_def doubleton_eq_iff
        eval_nat_numeral)
  from g ev have "g = \<lparr>nodes = [{DiagramMember (Rect 0 0 10 10)} \<mapsto> 0,
                    {DiagramMember (Rect 0 30 10 40), DiagramMember (Rect 0 42 10 52)} \<mapsto> 1,
                    {ConditionsMember (Rect 8 12 12 28)} \<mapsto> 2,
                    {DiagramMember (Rect 0 72 10 82)} \<mapsto> 3,
                    {ConditionsMember (Rect 8 54 12 70)} \<mapsto> 4],
          adjacency = [0 \<mapsto> [2], 2 \<mapsto> [1], 1 \<mapsto> [4], 4 \<mapsto> [3]],
          node_idx = 5\<rparr>"
    by simp
  then have "node_idx g = 5 \<and>
       nodes g (frozenset (Species [diagram_at 0])) = Some 0 \<and>
       nodes g (frozenset (Species [diagram_at 30, diagram_at 42])) = Some 1 \<and>
       nodes g (frozenset (Species [diagram_at 42, diagram_at 30])) = Some 1 \<and>
       nodes g (frozenset (Conds (children (arrow_at 12)))) = Some 2 \<and>
       nodes g (frozenset (Species [diagram_at 72])) = Some 3 \<and>
       nodes g (frozenset (Conds (children (arrow_at 54)))) = Some 4 \<and>
       adjacency g 0 = Some [2] \<and> adjacency g 2 = Some [1] \<and>
       adjacency g 1 = Some [4] \<and> adjacency g 4 = Some [3] \<and> adjacency g 3 = None"
    by (simp add: diagram_at_def arrow_at_def Rect_def doubleton_eq_iff eval_nat_numeral)
  with g d show ?thesis by blast
qed

section \<open>Properties of the crop transforms\<close>

lemma in_main_fig_size:
  "in_main_fig c (PanelElem e) = PanelElem e' \<Longrightarrow>
   height e' = height e - of_int (top_padding c) \<and> width e' = width e - of_int (left_padding c)"
  by (auto simp: Let_def height_def width_def Rect_def)

lemma in_main_fig_point_shifted:
  "in_main_fig c (PointElem (y + of_int (top_padding c)) (x + of_int (left_padding c))) =
   PointElem (y + top (cropped_rect c)) (x + left (cropped_rect c))"
  by simp

lemma in_main_fig_unpadded:
  "top_padding c = 0 \<Longrightarrow> left_padding c = 0 \<Longrightarrow>
   in_main_fig c (PanelElem e) =
   PanelElem (Rect (top e + top (cropped_rect c)) (left e + left (cropped_rect c))
                   (bottom e + top (cropped_rect c)) (right e + left (cropped_rect c)))"
  by (simp add: Let_def height_def width_def Rect_def)

lemma slice_length_inside: "0 \<le> start \<Longrightarrow> start \<le> stop \<Longrightarrow> stop \<le> n \<Longrightarrow> slice_length n start stop = stop - start"
  by (simp add: slice_length_def slice_index_def)

lemma Crop_init_example:
  "Crop_init (100, 200) (10, 20, 60, 80) =
   \<lparr>img_shape_of = (50, 60), connected_components = None, cropped_rect = Rect 10 20 60 80,
    padding = None, top_padding = 0, left_padding = 0\<rparr>"
proof -
  have "Crop_init (100, 200) (10, 20, 60, 80) =
   \<lparr>img_shape_of = (slice_length 100 10 60, slice_length 200 20 80), connected_components = None,
    cropped_rect = Rect 10 20 60 80, padding = None, top_padding = 0, left_padding = 0\<rparr>"
    by (simp add: Crop_init_def)
  then show ?thesis
    by (simp add: slice_length_inside)
qed

lemma set_connected_components_example:
  "set_connected_components [(0, 0, 60, 50), (5, 5, 10, 10)]
     \<lparr>img_shape_of = (50, 60), connected_components = None, cropped_rect = Rect 10 20 60 80,
      padding = None, top_padding = 0, left_padding = 0\<rparr> =
   \<lparr>img_shape_of = (50, 60), connected_components = Some [Rect 5 5 15 15],
    cropped_rect = Rect 10 20 60 80, padding = None, top_padding = 0, left_padding = 0\<rparr>"
  by (simp add: set_connected_components_def figure_area_def area_def width_def height_def Rect_def)

lemma pad_crop_example:
  "pad_crop [(0, 0, 80, 70), (15, 15, 10, 10)] (PadInt 10)
     \<lparr>img_shape_of = (50, 60), connected_components = None, cropped_rect = Rect 10 20 60 80,
      padding = None, top_padding = 0, left_padding = 0\<rparr> =
   Inr \<lparr>img_shape_of = (70, 80), connected_components = Some [Rect 25 25 35 35],
        cropped_rect = Rect 10 20 60 80, padding = Some (PadInt 10), top_padding = 10,
        left_padding = 10\<rparr>"
  by (simp add: pad_crop_def pad_valid_def padded_shape_def set_connected_components_def
      figure_area_def area_def width_def height_def shift_component_def Rect_def)

text \<open>
  C3. A figure of 100 rows and 200 columns is cropped to the rectangle with top 10,
  left 20, bottom 60, right 80; the crop holds one component of 10 by 10 pixels, at top 5,
  left 5 of the crop, that is, at (15, 25, 25, 35) in the figure. Mapped to the figure
  before any padding, the component comes out at these coordinates. After \<open>pad_crop\<close>
  with a width of 10 (the padded image is labelled again, with the component now at
  top 15, left 15) the component of the crop is mapped to (25, 35, 25, 35), a box with no
  extent.
\<close>

theorem in_main_fig_after_pad_crop:
  "connected_components (set_connected_components [(0, 0, 60, 50), (5, 5, 10, 10)]
       (Crop_init (100, 200) (10, 20, 60, 80))) = Some [Rect 5 5 15 15] \<and>
   in_main_fig (set_connected_components [(0, 0, 60, 50), (5, 5, 10, 10)]
       (Crop_init (100, 200) (10, 20, 60, 80))) (PanelElem (Rect 5 5 15 15)) =
     PanelElem (Rect 15 25 25 35) \<and>
   map_sum id connected_components
     (pad_crop [(0, 0, 80, 70), (15, 15, 10, 10)] (PadInt 10) (Crop_init (100, 200) (10, 20, 60, 80))) =
     Inr (Some [Rect 25 25 35 35]) \<and>
   map_sum id (\<lambda>c. in_main_fig c (PanelElem (Rect 25 25 35 35)))
     (pad_crop [(0, 0, 80, 70), (15, 15, 10, 10)] (PadInt 10) (Crop_init (100, 200) (10, 20, 60, 80))) =
     Inr (PanelElem (Rect 25 35 25 35))"
  by (simp add: Crop_init_example set_connected_components_example pad_crop_example)
     (simp add: width_def height_def Rect_def)

section \<open>Properties of the linear reaction string\<close>

lemma create_graph_succeeds: "\<exists>g. create_graph Graph_init steps = Inr g"
proof -
  from register_nodes_props [OF ids_ok_init, of steps]
  have d: "step_keys steps \<subseteq> dom (nodes (register_nodes Graph_init steps))"
    and a: "adjacency (register_nodes Graph_init steps) = Map.empty"
    by (simp_all add: Graph_init_def)
  have "adjacency (register_nodes Graph_init steps) = successors_in []"
    by (rule ext) (simp add: a successors_in_def)
  from generate_edges_props [OF d this] show ?thesis
    by (auto simp: create_graph_def)
qed

lemma to_smirks_after_init:
  "map_sum id (\<lambda>s. to_smirks (Suc fuel) s start_key species_strings) (ReactionScheme_init steps) =
   Inr (Some (Inl AttributeError))"
proof -
  from create_graph_succeeds [of steps] obtain g where "create_graph Graph_init steps = Inr g" ..
  then show ?thesis
    by (simp add: ReactionScheme_init_def)
qed

lemma single_path_after_init:
  "map_sum id single_path (ReactionScheme_init steps) = Inr None"
proof -
  from create_graph_succeeds [of steps] obtain g where "create_graph Graph_init steps = Inr g" ..
  then show ?thesis
    by (simp add: ReactionScheme_init_def)
qed

lemma create_graph_two_sinks:
  "map_sum id (\<lambda>g. (node_idx g, adjacency g 0, adjacency g 1, adjacency g 2, adjacency g 3, adjacency g 4))
     (create_graph Graph_init two_sinks) = Inr (5, Some [2, 4], None, Some [1], None, Some [3])"
  by (simp add: create_graph_def two_sinks_def Graph_init_def add_node_def generate_edge_def
      step_conditions_def ethanol_def ethanal_def ethene_def oxidant_def acid_def Rect_def
      eval_nat_numeral)

text \<open>
  C4. \<open>to_smirks\<close> evaluated on the schemes that the constructor builds from the one-step
  scheme (one source, one sink) and from the two-step scheme with two sinks. The
  constructor leaves \<open>_single_path\<close> unassigned, and on both schemes the export raises
  \<open>AttributeError\<close>: it neither returns a string for the first nor reaches
  \<open>return NotImplemented\<close> for the second.
\<close>

theorem to_smirks_constructed_scheme_raises:
  "map_sum id single_path (ReactionScheme_init one_step) = Inr None \<and>
   map_sum id (\<lambda>s. to_smirks 3 s None None) (ReactionScheme_init one_step) =
     Inr (Some (Inl AttributeError)) \<and>
   map_sum id single_path (ReactionScheme_init two_sinks) = Inr None \<and>
   map_sum id (\<lambda>s. to_smirks 5 s None None) (ReactionScheme_init two_sinks) =
     Inr (Some (Inl AttributeError))"
  using to_smirks_after_init [of 2 None None one_step] to_smirks_after_init [of 4 None None two_sinks]
  by (simp add: single_path_after_init eval_nat_numeral)

end
